theory Spec2Isabelle
  imports Complex_Main
begin

section \<open>Scalars: floating-point values with their special values\<close>

text \<open>
  The functionals of \<^verbatim>\<open>default_functionals.py\<close> compute with NumPy floats. A scalar
  is modelled as a finite real number or one of the three IEEE-754 special values. The
  special values propagate as IEEE-754 prescribes (\<open>inf - inf\<close>, \<open>0 * inf\<close>, \<open>0 / 0\<close> and
  the logarithm of a negative number are \<open>nan\<close>; every comparison with \<open>nan\<close> is false).
  Finite results are exact: rounding, overflow and the sign of zero are not part of the
  model (a zero divisor is \<open>+0.0\<close>).
\<close>

datatype fl = Fin real | PInf | NInf | NaN

fun isfinite :: "fl \<Rightarrow> bool" where
  "isfinite (Fin r) = True"
| "isfinite _ = False"

fun isnan :: "fl \<Rightarrow> bool" where
  "isnan NaN = True"
| "isnan _ = False"

fun fl_neg :: "fl \<Rightarrow> fl" where
  "fl_neg (Fin r) = Fin (- r)"
| "fl_neg PInf = NInf"
| "fl_neg NInf = PInf"
| "fl_neg NaN = NaN"

fun fl_abs :: "fl \<Rightarrow> fl" where
  "fl_abs (Fin r) = Fin \<bar>r\<bar>"
| "fl_abs PInf = PInf"
| "fl_abs NInf = PInf"
| "fl_abs NaN = NaN"

fun fl_add :: "fl \<Rightarrow> fl \<Rightarrow> fl" where
  "fl_add NaN _ = NaN"
| "fl_add _ NaN = NaN"
| "fl_add (Fin a) (Fin b) = Fin (a + b)"
| "fl_add PInf NInf = NaN"
| "fl_add NInf PInf = NaN"
| "fl_add PInf _ = PInf"
| "fl_add _ PInf = PInf"
| "fl_add NInf _ = NInf"
| "fl_add _ NInf = NInf"

definition fl_sub :: "fl \<Rightarrow> fl \<Rightarrow> fl" where
  "fl_sub a b = fl_add a (fl_neg b)"

text \<open>An infinity with the sign of a finite non-zero factor.\<close>

definition signed_inf :: "real \<Rightarrow> fl" where
  "signed_inf r = (if 0 < r then PInf else NInf)"

fun fl_mul :: "fl \<Rightarrow> fl \<Rightarrow> fl" where
  "fl_mul NaN _ = NaN"
| "fl_mul _ NaN = NaN"
| "fl_mul (Fin a) (Fin b) = Fin (a * b)"
| "fl_mul (Fin a) PInf = (if a = 0 then NaN else signed_inf a)"
| "fl_mul (Fin a) NInf = (if a = 0 then NaN else signed_inf (- a))"
| "fl_mul PInf (Fin b) = (if b = 0 then NaN else signed_inf b)"
| "fl_mul NInf (Fin b) = (if b = 0 then NaN else signed_inf (- b))"
| "fl_mul PInf PInf = PInf"
| "fl_mul NInf NInf = PInf"
| "fl_mul PInf NInf = NInf"
| "fl_mul NInf PInf = NInf"

fun fl_div :: "fl \<Rightarrow> fl \<Rightarrow> fl" where
  "fl_div NaN _ = NaN"
| "fl_div _ NaN = NaN"
| "fl_div (Fin a) (Fin b) =
     (if b = 0 then (if a = 0 then NaN else signed_inf a) else Fin (a / b))"
| "fl_div (Fin a) _ = Fin 0"
| "fl_div PInf (Fin b) = (if 0 \<le> b then PInf else NInf)"
| "fl_div NInf (Fin b) = (if 0 \<le> b then NInf else PInf)"
| "fl_div _ _ = NaN"

text \<open>\<^verbatim>\<open>np.log\<close>, \<^verbatim>\<open>np.exp\<close> and \<^verbatim>\<open>np.sqrt\<close> on a scalar.\<close>

fun fl_log :: "fl \<Rightarrow> fl" where
  "fl_log (Fin r) = (if 0 < r then Fin (ln r) else if r = 0 then NInf else NaN)"
| "fl_log PInf = PInf"
| "fl_log NInf = NaN"
| "fl_log NaN = NaN"

fun fl_exp :: "fl \<Rightarrow> fl" where
  "fl_exp (Fin r) = Fin (exp r)"
| "fl_exp PInf = PInf"
| "fl_exp NInf = Fin 0"
| "fl_exp NaN = NaN"

fun fl_sqrt :: "fl \<Rightarrow> fl" where
  "fl_sqrt (Fin r) = (if 0 \<le> r then Fin (sqrt r) else NaN)"
| "fl_sqrt PInf = PInf"
| "fl_sqrt NInf = NaN"
| "fl_sqrt NaN = NaN"

text \<open>Comparisons: false as soon as one side is \<open>nan\<close>.\<close>

fun fl_le :: "fl \<Rightarrow> fl \<Rightarrow> bool" where
  "fl_le NaN _ = False"
| "fl_le _ NaN = False"
| "fl_le (Fin a) (Fin b) = (a \<le> b)"
| "fl_le NInf _ = True"
| "fl_le _ PInf = True"
| "fl_le _ _ = False"

definition fl_ge :: "fl \<Rightarrow> fl \<Rightarrow> bool" where
  "fl_ge a b = fl_le b a"

definition fl_eq :: "fl \<Rightarrow> fl \<Rightarrow> bool" where
  "fl_eq a b = (\<not> isnan a \<and> a = b)"

definition fl_lt :: "fl \<Rightarrow> fl \<Rightarrow> bool" where
  "fl_lt a b = (fl_le a b \<and> \<not> fl_eq a b)"

definition fl_gt :: "fl \<Rightarrow> fl \<Rightarrow> bool" where
  "fl_gt a b = fl_lt b a"

text \<open>
  \<^verbatim>\<open>scipy.special.xlogy(x, y)\<close>: \<open>x * log(y)\<close>, except that the result is \<open>0\<close> when
  \<open>x = 0\<close> and \<open>y\<close> is not \<open>nan\<close>.
\<close>

definition xlogy :: "fl \<Rightarrow> fl \<Rightarrow> fl" where
  "xlogy x y = (if fl_eq x (Fin 0) \<and> \<not> isnan y then Fin 0 else fl_mul x (fl_log y))"


fun fl_sign :: "fl \<Rightarrow> fl" where
  "fl_sign (Fin r) = Fin (sgn r)"
| "fl_sign PInf = Fin 1"
| "fl_sign NInf = Fin (- 1)"
| "fl_sign NaN = NaN"

text \<open>\<^verbatim>\<open>np.power\<close> of a scalar with a finite exponent.\<close>

fun fl_power :: "fl \<Rightarrow> real \<Rightarrow> fl" where
  "fl_power (Fin a) e =
     (if e = 0 then Fin 1
      else if 0 < a then Fin (a powr e)
      else if a = 0 then (if 0 < e then Fin 0 else PInf)
      else if e = of_int \<lfloor>e\<rfloor> then Fin (a powi \<lfloor>e\<rfloor>) else NaN)"
| "fl_power PInf e = (if e = 0 then Fin 1 else if 0 < e then PInf else Fin 0)"
| "fl_power NInf e =
     (if e = 0 then Fin 1
      else if 0 < e then (if e = of_int \<lfloor>e\<rfloor> \<and> odd \<lfloor>e\<rfloor> then NInf else PInf)
      else Fin 0)"
| "fl_power NaN e = (if e = 0 then Fin 1 else NaN)"

text \<open>\<^verbatim>\<open>np.maximum\<close> and \<^verbatim>\<open>np.minimum\<close> of two scalars: \<open>nan\<close> wins.\<close>

definition fl_max :: "fl \<Rightarrow> fl \<Rightarrow> fl" where
  "fl_max a b = (if isnan a \<or> isnan b then NaN else if fl_le a b then b else a)"

definition fl_min :: "fl \<Rightarrow> fl \<Rightarrow> fl" where
  "fl_min a b = (if isnan a \<or> isnan b then NaN else if fl_le a b then a else b)"

section \<open>Errors\<close>

datatype error =
    ValueError | TypeError | RuntimeError | NotImplementedError | AttributeError
  | OpDomainError

section \<open>Spaces and their elements\<close>

text \<open>
  A tensor space \<^verbatim>\<open>rn(n, dtype)\<close> is given by its size and its dtype; its elements are
  the lists of \<open>n\<close> scalars. A product space is a list of tensor spaces, and its elements
  are lists of elements of the parts (the vector fields of \<^verbatim>\<open>GroupL1Norm\<close> and
  \<^verbatim>\<open>Huber\<close>).
\<close>

type_synonym vec = "fl list"

record tensor_space =
  space_size :: nat
  space_dtype :: string

datatype space = TensorSpace tensor_space | ProductSpace "tensor_space list"

datatype element = Tensor vec | Product "vec list"

fun in_space :: "element \<Rightarrow> space \<Rightarrow> bool" where
  "in_space (Tensor xs) (TensorSpace t) = (length xs = space_size t)"
| "in_space (Product xss) (ProductSpace ts) =
     list_all2 (\<lambda>xs t. length xs = space_size t) xss ts"
| "in_space _ _ = False"

text \<open>\<^verbatim>\<open>ProductSpace.is_power_space\<close>: every part equals the first one.\<close>

fun is_power_space :: "tensor_space list \<Rightarrow> bool" where
  "is_power_space [] = True"
| "is_power_space (t # ts) = list_all (\<lambda>u. u = t) ts"

text \<open>
  Modelled from the spec: the vector-space contract consumed by the functionals
  (\<^verbatim>\<open>zero()\<close>, \<^verbatim>\<open>one()\<close>, \<^verbatim>\<open>inner\<close>, \<^verbatim>\<open>norm\<close>, the reduction \<^verbatim>\<open>sum\<close>) belongs to
  \<^verbatim>\<open>odl.space\<close>, which is not under \<^verbatim>\<open>src/\<close>. The spec fixes it on \<^verbatim>\<open>rn(n)\<close> through
  \<open>LpNorm(p=1)(x) = \<Sum>|x_i|\<close>, computed as \<^verbatim>\<open>abs(x).inner(one)\<close>, and
  \<open>LpNorm(p=2)(x) = sqrt(x.inner(x))\<close>: the inner product is the sum of the
  componentwise products and the norm is its square root.
\<close>

definition zero :: "tensor_space \<Rightarrow> vec" where
  "zero t = replicate (space_size t) (Fin 0)"

definition one :: "tensor_space \<Rightarrow> vec" where
  "one t = replicate (space_size t) (Fin 1)"

text \<open>\<^verbatim>\<open>v.space.one()\<close>: the one element of the space an element \<open>v\<close> lives in.\<close>

definition one_like :: "vec \<Rightarrow> vec" where
  "one_like v = replicate (length v) (Fin 1)"

fun fl_sum :: "vec \<Rightarrow> fl" where
  "fl_sum [] = Fin 0"
| "fl_sum (v # vs) = fl_add v (fl_sum vs)"

definition inner :: "vec \<Rightarrow> vec \<Rightarrow> fl" where
  "inner x y = fl_sum (map2 fl_mul x y)"

definition norm_el :: "vec \<Rightarrow> fl" where
  "norm_el x = fl_sqrt (inner x x)"

text \<open>
  \<^verbatim>\<open>ufuncs.max()\<close> and \<^verbatim>\<open>ufuncs.min()\<close>: NumPy raises \<^verbatim>\<open>ValueError\<close> on an array
  without entries.
\<close>

fun max_el :: "vec \<Rightarrow> error + fl" where
  "max_el [] = Inl ValueError"
| "max_el (v # vs) = Inr (foldl fl_max v vs)"

fun min_el :: "vec \<Rightarrow> error + fl" where
  "min_el [] = Inl ValueError"
| "min_el (v # vs) = Inr (foldl fl_min v vs)"


section \<open>The Kullback-Leibler family\<close>

text \<open>
  The four classes \<^verbatim>\<open>KullbackLeibler\<close>, \<^verbatim>\<open>KullbackLeiblerConvexConj\<close>,
  \<^verbatim>\<open>KullbackLeiblerCrossEntropy\<close> and \<^verbatim>\<open>KullbackLeiblerCrossEntropyConvexConj\<close> hold
  the same two attributes, set by the same constructor code: the domain and the optional
  prior, which has to be an element of the domain.
\<close>

record divergence =
  kl_domain :: tensor_space
  kl_prior :: "vec option"

definition KullbackLeibler_init :: "tensor_space \<Rightarrow> vec option \<Rightarrow> error + divergence" where
  "KullbackLeibler_init sp prior =
     (case prior of
        Some g \<Rightarrow>
          if length g \<noteq> space_size sp then Inl ValueError
          else Inr \<lparr>kl_domain = sp, kl_prior = prior\<rparr>
      | None \<Rightarrow> Inr \<lparr>kl_domain = sp, kl_prior = prior\<rparr>)"

text \<open>
  Three of the four evaluations end with the guard
  \<^verbatim>\<open>if not np.isfinite(res): return np.inf\<close>.
\<close>

definition KullbackLeibler_call :: "divergence \<Rightarrow> vec \<Rightarrow> fl" where
  "KullbackLeibler_call f x =
     (let res =
        (case kl_prior f of
           None \<Rightarrow>
             inner (map (\<lambda>v. fl_sub (fl_sub v (Fin 1)) (fl_log v)) x) (one (kl_domain f))
         | Some g \<Rightarrow>
             (let xlogy_el = map2 xlogy g (map2 fl_div g x)
              in inner (map2 fl_add (map2 fl_sub x g) xlogy_el) (one (kl_domain f))))
      in if \<not> isfinite res then PInf else res)"

definition KullbackLeiblerConvexConj_call :: "divergence \<Rightarrow> vec \<Rightarrow> fl" where
  "KullbackLeiblerConvexConj_call f x =
     (let res =
        (case kl_prior f of
           None \<Rightarrow>
             fl_neg (inner (map (\<lambda>v. fl_log (fl_sub (Fin 1) v)) x) (one (kl_domain f)))
         | Some g \<Rightarrow>
             (let xlogy_el = map2 xlogy g (map (\<lambda>v. fl_sub (Fin 1) v) x)
              in fl_neg (inner xlogy_el (one (kl_domain f)))))
      in if \<not> isfinite res then PInf else res)"

definition KullbackLeiblerCrossEntropy_call :: "divergence \<Rightarrow> vec \<Rightarrow> fl" where
  "KullbackLeiblerCrossEntropy_call f x =
     (let res =
        (case kl_prior f of
           None \<Rightarrow>
             (let xlogx = map2 xlogy x x
              in inner (map2 fl_add (map (\<lambda>v. fl_sub (Fin 1) v) x) xlogx) (one (kl_domain f)))
         | Some g \<Rightarrow>
             (let xlogy_el = map2 xlogy x (map2 fl_div x g)
              in inner (map2 fl_add (map2 fl_sub g x) xlogy_el) (one (kl_domain f))))
      in if \<not> isfinite res then PInf else res)"

text \<open>The fourth evaluation returns its sum as computed.\<close>

definition KullbackLeiblerCrossEntropyConvexConj_call :: "divergence \<Rightarrow> vec \<Rightarrow> fl" where
  "KullbackLeiblerCrossEntropyConvexConj_call f x =
     (case kl_prior f of
        None \<Rightarrow> inner (map (\<lambda>v. fl_sub (fl_exp v) (Fin 1)) x) (one (kl_domain f))
      | Some g \<Rightarrow>
          inner (map2 fl_mul g (map (\<lambda>v. fl_sub (fl_exp v) (Fin 1)) x)) (one (kl_domain f)))"

text \<open>
  The gradient operators. \<^verbatim>\<open>KLGradient._call\<close> divides and returns;
  \<^verbatim>\<open>KLCrossEntropyGradient._call\<close> tests its result with \<^verbatim>\<open>np.all(np.isfinite(tmp))\<close>
  and raises \<^verbatim>\<open>ValueError\<close> otherwise.
\<close>

definition KLGradient_call :: "divergence \<Rightarrow> vec \<Rightarrow> error + vec" where
  "KLGradient_call f x =
     (case kl_prior f of
        None \<Rightarrow> Inr (map (\<lambda>v. fl_add (fl_div (Fin (- 1)) v) (Fin 1)) x)
      | Some g \<Rightarrow> Inr (map (\<lambda>q. fl_add q (Fin 1)) (map2 fl_div (map fl_neg g) x)))"

definition KLCrossEntropyGradient_call :: "divergence \<Rightarrow> vec \<Rightarrow> error + vec" where
  "KLCrossEntropyGradient_call f x =
     (let tmp =
        (case kl_prior f of
           None \<Rightarrow> map fl_log x
         | Some g \<Rightarrow> map fl_log (map2 fl_div x g))
      in if list_all isfinite tmp then Inr tmp else Inl ValueError)"


section \<open>The Lp norm and the indicator of its unit ball\<close>

text \<open>
  \<^verbatim>\<open>conj_exponent\<close> lives in \<^verbatim>\<open>odl.util\<close>, which is not under \<^verbatim>\<open>src/\<close>. The two
  \<^verbatim>\<open>convex_conj\<close> properties below take it as a parameter \<open>ce\<close>.

  Modelled from the spec: the instance \<open>conj_exponent\<close> of that parameter. The spec defines
  the conjugate exponent \<open>q\<close> of \<open>p\<close> by \<open>1/p + 1/q = 1\<close>, with \<open>q = \<infinity>\<close> when \<open>p = 1\<close>; so
  \<open>q = 1\<close> when \<open>p = \<infinity>\<close>, and \<open>q = p / (p - 1)\<close> otherwise, a quotient of floats (which is
  \<open>nan\<close> at \<open>p = -\<infinity>\<close>). The program rounds that quotient; the model, as everywhere, does
  not.
\<close>

definition conj_exponent :: "fl \<Rightarrow> fl" where
  "conj_exponent p =
     (if fl_eq p (Fin 1) then PInf
      else if fl_eq p PInf then Fin 1
      else fl_div p (fl_sub p (Fin 1)))"

text \<open>
  The two classes are each other's \<^verbatim>\<open>convex_conj\<close>; \<^verbatim>\<open>L1Norm\<close> and \<^verbatim>\<open>L2Norm\<close> are the
  subclasses of \<^verbatim>\<open>LpNorm\<close> that fix the exponent.
\<close>

datatype functional = LpNorm tensor_space fl | IndicatorLpUnitBall tensor_space fl

definition L1Norm :: "tensor_space \<Rightarrow> functional" where
  "L1Norm sp = LpNorm sp (Fin 1)"

definition L2Norm :: "tensor_space \<Rightarrow> functional" where
  "L2Norm sp = LpNorm sp (Fin 2)"

definition LpNorm_call :: "tensor_space \<Rightarrow> fl \<Rightarrow> vec \<Rightarrow> error + fl" where
  "LpNorm_call domain exponent x =
     (if fl_eq exponent (Fin 0) then
        Inr (inner (one domain) (map (\<lambda>v. if fl_eq v (Fin 0) then Fin 0 else Fin 1) x))
      else if fl_eq exponent (Fin 1) then
        Inr (inner (map fl_abs x) (one domain))
      else if fl_eq exponent (Fin 2) then
        Inr (fl_sqrt (inner x x))
      else if isfinite exponent then
        (case exponent of
           Fin p \<Rightarrow>
             (let tmp = map (\<lambda>v. fl_power (fl_abs v) p) x
              in Inr (fl_power (inner tmp (one domain)) (1 / p)))
         | _ \<Rightarrow> Inl RuntimeError)
      else if fl_eq exponent PInf then max_el (map fl_abs x)
      else if fl_eq exponent NInf then min_el (map fl_abs x)
      else Inl RuntimeError)"

definition IndicatorLpUnitBall_call :: "tensor_space \<Rightarrow> fl \<Rightarrow> vec \<Rightarrow> error + fl" where
  "IndicatorLpUnitBall_call domain exponent x =
     (case LpNorm_call domain exponent x of
        Inl e \<Rightarrow> Inl e
      | Inr x_norm \<Rightarrow> if fl_gt x_norm (Fin 1) then Inr PInf else Inr (Fin 0))"

fun functional_call :: "functional \<Rightarrow> vec \<Rightarrow> error + fl" where
  "functional_call (LpNorm domain exponent) x = LpNorm_call domain exponent x"
| "functional_call (IndicatorLpUnitBall domain exponent) x =
     IndicatorLpUnitBall_call domain exponent x"

fun convex_conj :: "(fl \<Rightarrow> fl) \<Rightarrow> functional \<Rightarrow> functional" where
  "convex_conj ce (LpNorm domain exponent) =
     IndicatorLpUnitBall domain (ce exponent)"
| "convex_conj ce (IndicatorLpUnitBall domain exponent) =
     (if fl_eq exponent PInf then L1Norm domain
      else if fl_eq exponent (Fin 2) then L2Norm domain
      else LpNorm domain (ce exponent))"

text \<open>
  \<^verbatim>\<open>LpNorm.gradient\<close> builds \<^verbatim>\<open>L1Gradient\<close> for \<open>p = 1\<close> and \<^verbatim>\<open>L2Gradient\<close> for \<open>p = 2\<close>
  and raises \<^verbatim>\<open>NotImplementedError\<close> for every other exponent.
\<close>

definition L1Gradient_call :: "tensor_space \<Rightarrow> vec \<Rightarrow> vec" where
  "L1Gradient_call domain x = map fl_sign x"

definition L2Gradient_call :: "tensor_space \<Rightarrow> vec \<Rightarrow> vec" where
  "L2Gradient_call domain x =
     (let norm_of_x = norm_el x
      in if fl_eq norm_of_x (Fin 0) then zero domain
         else map (\<lambda>v. fl_div v norm_of_x) x)"

definition LpNorm_gradient :: "tensor_space \<Rightarrow> fl \<Rightarrow> error + (vec \<Rightarrow> vec)" where
  "LpNorm_gradient domain exponent =
     (if fl_eq exponent (Fin 1) then Inr (L1Gradient_call domain)
      else if fl_eq exponent (Fin 2) then Inr (L2Gradient_call domain)
      else Inl NotImplementedError)"

section \<open>The indicator of the origin\<close>

record indicator_zero =
  iz_domain :: tensor_space
  iz_constant :: fl

definition IndicatorZero :: "tensor_space \<Rightarrow> fl \<Rightarrow> indicator_zero" where
  "IndicatorZero sp c = \<lparr>iz_domain = sp, iz_constant = c\<rparr>"

definition IndicatorZero_call :: "indicator_zero \<Rightarrow> vec \<Rightarrow> fl" where
  "IndicatorZero_call f x = (if fl_eq (norm_el x) (Fin 0) then iz_constant f else PInf)"

text \<open>
  Modelled from the spec: \<^verbatim>\<open>ZeroOperator\<close> belongs to \<^verbatim>\<open>odl.operator\<close>, which is not
  under \<^verbatim>\<open>src/\<close>. It is the zero map of its domain: every point goes to the zero element.
\<close>

definition ZeroOperator :: "tensor_space \<Rightarrow> vec \<Rightarrow> vec" where
  "ZeroOperator sp x = zero sp"

text \<open>\<^verbatim>\<open>IndicatorZero.proximal\<close> returns the factory \<^verbatim>\<open>zero_proximal(sigma)\<close>.\<close>

definition IndicatorZero_proximal :: "indicator_zero \<Rightarrow> fl \<Rightarrow> vec \<Rightarrow> vec" where
  "IndicatorZero_proximal f sigma = ZeroOperator (iz_domain f)"


section \<open>Quadratic forms\<close>

text \<open>
  \<^verbatim>\<open>QuadraticForm\<close> receives its operator from the caller. The operator contract it
  consumes is a domain, a call, and the properties \<^verbatim>\<open>adjoint\<close> and \<^verbatim>\<open>inverse\<close>, which are
  operators again. An operator is therefore given by the four maps \<open>A\<close>, \<open>A\<^sup>*\<close>,
  \<open>A\<^sup>-\<^sup>1\<close> and \<open>A\<^sup>-\<^sup>*\<close>; taking the adjoint or the inverse exchanges them. An operator
  without an inverse raises \<^verbatim>\<open>NotImplementedError\<close> when \<^verbatim>\<open>inverse\<close> is read.
\<close>

record operator =
  op_domain :: tensor_space
  op_call :: "vec \<Rightarrow> vec"
  op_adjoint_call :: "vec \<Rightarrow> vec"
  op_inverse_call :: "vec \<Rightarrow> vec"
  op_inverse_adjoint_call :: "vec \<Rightarrow> vec"
  op_has_inverse :: bool

definition op_adjoint :: "operator \<Rightarrow> operator" where
  "op_adjoint A =
     A\<lparr>op_call := op_adjoint_call A, op_adjoint_call := op_call A,
       op_inverse_call := op_inverse_adjoint_call A,
       op_inverse_adjoint_call := op_inverse_call A\<rparr>"

definition op_inverse :: "operator \<Rightarrow> error + operator" where
  "op_inverse A =
     (if op_has_inverse A then
        Inr (A\<lparr>op_call := op_inverse_call A, op_inverse_call := op_call A,
                op_adjoint_call := op_inverse_adjoint_call A,
                op_inverse_adjoint_call := op_adjoint_call A\<rparr>)
      else Inl NotImplementedError)"

text \<open>
  Modelled from the spec: membership of the constant in the range of the functional, the
  field of real numbers (\<^verbatim>\<open>odl.set\<close>, not under \<^verbatim>\<open>src/\<close>). Every float is a real scalar.
\<close>

definition in_range :: "fl \<Rightarrow> bool" where
  "in_range c = True"

record quadratic_form =
  qf_domain :: tensor_space
  qf_is_linear :: bool
  qf_operator :: "operator option"
  qf_vector :: "vec option"
  qf_constant :: fl

text \<open>
  \<^verbatim>\<open>vector.space\<close>: an element knows its space; a list of \<open>n\<close> floats is an element of
  \<^verbatim>\<open>rn(n)\<close>, whose dtype is \<^verbatim>\<open>float64\<close>.
\<close>

definition rn :: "nat \<Rightarrow> tensor_space" where
  "rn n = \<lparr>space_size = n, space_dtype = ''float64''\<rparr>"

definition space_of :: "vec \<Rightarrow> tensor_space" where
  "space_of v = rn (length v)"

definition QuadraticForm_init ::
    "operator option \<Rightarrow> vec option \<Rightarrow> fl \<Rightarrow> error + quadratic_form" where
  "QuadraticForm_init operator vector constant =
     (let finish = (\<lambda>domain.
            if \<not> in_range constant then Inl ValueError
            else Inr \<lparr>qf_domain = domain,
                      qf_is_linear = (operator = None \<and> fl_eq constant (Fin 0)),
                      qf_operator = operator, qf_vector = vector,
                      qf_constant = constant\<rparr>)
      in case operator of
           None \<Rightarrow>
             (case vector of
                None \<Rightarrow> Inl ValueError
              | Some b \<Rightarrow> finish (space_of b))
         | Some A \<Rightarrow>
             (case vector of
                None \<Rightarrow> finish (op_domain A)
              | Some b \<Rightarrow>
                  if length b \<noteq> space_size (op_domain A) then Inl ValueError
                  else finish (op_domain A)))"

definition vadd :: "vec \<Rightarrow> vec \<Rightarrow> vec" where
  "vadd x y = map2 fl_add x y"

definition vsub :: "vec \<Rightarrow> vec \<Rightarrow> vec" where
  "vsub x y = map2 fl_sub x y"

definition vneg :: "vec \<Rightarrow> vec" where
  "vneg x = map fl_neg x"

definition QuadraticForm_call :: "quadratic_form \<Rightarrow> vec \<Rightarrow> error + fl" where
  "QuadraticForm_call f x =
     (case qf_operator f of
        None \<Rightarrow>
          (case qf_vector f of
             None \<Rightarrow> Inl AttributeError
           | Some b \<Rightarrow> Inr (fl_add (inner b x) (qf_constant f)))
      | Some A \<Rightarrow>
          (case qf_vector f of
             None \<Rightarrow> Inr (fl_add (inner x (op_call A x)) (qf_constant f))
           | Some b \<Rightarrow>
               (let tmp = vadd (op_call A x) b
                in Inr (fl_add (inner x tmp) (qf_constant f)))))"

text \<open>
  The conjugate of a form without operator is an \<^verbatim>\<open>IndicatorZero\<close>, translated by the
  vector when there is one; with an operator it is a \<^verbatim>\<open>QuadraticForm\<close> again.
\<close>

datatype conjugate =
    ConjIndicatorZero indicator_zero
  | ConjTranslated indicator_zero vec
  | ConjQuadraticForm quadratic_form

definition QuadraticForm_convex_conj :: "quadratic_form \<Rightarrow> error + conjugate" where
  "QuadraticForm_convex_conj f =
     (case qf_operator f of
        None \<Rightarrow>
          (let tmp = IndicatorZero (qf_domain f) (fl_neg (qf_constant f))
           in case qf_vector f of
                None \<Rightarrow> Inr (ConjIndicatorZero tmp)
              | Some b \<Rightarrow> Inr (ConjTranslated tmp b))
      | Some A \<Rightarrow>
          (case qf_vector f of
             None \<Rightarrow>
               (case op_inverse A of
                  Inl e \<Rightarrow> Inl e
                | Inr opinv \<Rightarrow>
                    map_sum id ConjQuadraticForm
                      (QuadraticForm_init (Some opinv) None (fl_neg (qf_constant f))))
           | Some b \<Rightarrow>
               (case op_inverse A of
                  Inl e \<Rightarrow> Inl e
                | Inr opinv \<Rightarrow>
                    (let vector = vsub (vneg (op_call (op_adjoint opinv) b)) (op_call opinv b);
                         constant = fl_sub (inner b (op_call opinv b)) (qf_constant f)
                     in map_sum id ConjQuadraticForm
                          (QuadraticForm_init (Some opinv) (Some vector) constant)))))"

text \<open>
  The round trip \<^verbatim>\<open>f.convex_conj.convex_conj(x)\<close> of a form with an operator, and the
  identity operator of \<^verbatim>\<open>rn(n)\<close> as a concrete self-adjoint invertible operator.
\<close>

definition biconjugate_call :: "quadratic_form \<Rightarrow> vec \<Rightarrow> error + fl" where
  "biconjugate_call f x =
     (case QuadraticForm_convex_conj f of
        Inr (ConjQuadraticForm g) \<Rightarrow>
          (case QuadraticForm_convex_conj g of
             Inr (ConjQuadraticForm h) \<Rightarrow> QuadraticForm_call h x
           | Inr _ \<Rightarrow> Inl NotImplementedError
           | Inl e \<Rightarrow> Inl e)
      | Inr _ \<Rightarrow> Inl NotImplementedError
      | Inl e \<Rightarrow> Inl e)"

definition IdentityOperator :: "tensor_space \<Rightarrow> operator" where
  "IdentityOperator sp =
     \<lparr>op_domain = sp, op_call = (\<lambda>x. x), op_adjoint_call = (\<lambda>x. x),
      op_inverse_call = (\<lambda>x. x), op_inverse_adjoint_call = (\<lambda>x. x),
      op_has_inverse = True\<rparr>"

section \<open>The indicator of the simplex\<close>

record indicator_simplex =
  is_domain :: tensor_space
  is_diameter :: fl
  is_sum_rtol :: fl

definition IndicatorSimplex_init ::
    "tensor_space \<Rightarrow> fl \<Rightarrow> fl option \<Rightarrow> indicator_simplex" where
  "IndicatorSimplex_init sp diameter sum_rtol =
     \<lparr>is_domain = sp, is_diameter = diameter,
      is_sum_rtol =
        (case sum_rtol of
           None \<Rightarrow>
             if space_dtype sp = ''float64''
             then Fin (1 / 10 ^ 10 * real (space_size sp))
             else Fin (1 / 10 ^ 6 * real (space_size sp))
         | Some r \<Rightarrow> r)\<rparr>"

definition IndicatorSimplex_call :: "indicator_simplex \<Rightarrow> vec \<Rightarrow> fl" where
  "IndicatorSimplex_call f x =
     (let sum_constr =
            fl_le (fl_abs (fl_sub (fl_div (fl_sum x) (is_diameter f)) (Fin 1))) (is_sum_rtol f);
          nonneq_constr = list_all (\<lambda>v. fl_ge v (Fin 0)) x
      in if sum_constr \<and> nonneq_constr then Fin 0 else PInf)"

section \<open>The group L1 norm and the Huber functional\<close>

text \<open>
  \<^verbatim>\<open>PointwiseNorm\<close> belongs to \<^verbatim>\<open>odl.operator\<close>, which is not under \<^verbatim>\<open>src/\<close>. It is a
  parameter \<open>PW\<close> of the two functionals that use it: \<open>PW vfspace exponent\<close> is the outcome
  of constructing \<^verbatim>\<open>PointwiseNorm(vfspace, exponent)\<close>, an error or the operator that
  sends a vector field to the element of its pointwise norms.
\<close>

type_synonym pointwise_norm = "space \<Rightarrow> fl option \<Rightarrow> error + (element \<Rightarrow> vec)"

record group_l1_norm =
  gl1_domain :: space
  gl1_pointwise_norm :: "element \<Rightarrow> vec"

definition GroupL1Norm_init ::
    "pointwise_norm \<Rightarrow> space \<Rightarrow> fl option \<Rightarrow> error + group_l1_norm" where
  "GroupL1Norm_init PW vfspace exponent =
     (case vfspace of
        TensorSpace t \<Rightarrow> Inl TypeError
      | ProductSpace ts \<Rightarrow>
          if \<not> is_power_space ts then Inl TypeError
          else (case PW vfspace exponent of
                  Inl e \<Rightarrow> Inl e
                | Inr pn \<Rightarrow> Inr \<lparr>gl1_domain = vfspace, gl1_pointwise_norm = pn\<rparr>))"

definition GroupL1Norm_call :: "group_l1_norm \<Rightarrow> element \<Rightarrow> fl" where
  "GroupL1Norm_call f x =
     (let pointwise_norm = gl1_pointwise_norm f x
      in inner pointwise_norm (one_like pointwise_norm))"

record huber =
  hub_domain :: space
  hub_gamma :: fl
  hub_grad_lipschitz :: fl

definition Huber_init :: "space \<Rightarrow> fl \<Rightarrow> huber" where
  "Huber_init sp gamma =
     \<lparr>hub_domain = sp, hub_gamma = gamma,
      hub_grad_lipschitz = (if fl_gt gamma (Fin 0) then fl_div (Fin 1) gamma else PInf)\<rparr>"

text \<open>
  \<^verbatim>\<open>Huber._call\<close>. The base class hands \<^verbatim>\<open>_call\<close> elements of the domain only, so a
  tensor element meets a tensor space and a vector field a product space.
\<close>

definition Huber_smooth :: "fl \<Rightarrow> vec \<Rightarrow> vec" where
  "Huber_smooth gamma norm_x =
     (if fl_gt gamma (Fin 0) then
        map (\<lambda>v. if fl_ge v gamma then fl_sub v (fl_div gamma (Fin 2))
                 else fl_mul (fl_mul v v) (fl_div (Fin 1) (fl_mul (Fin 2) gamma))) norm_x
      else norm_x)"

definition Huber_call :: "pointwise_norm \<Rightarrow> huber \<Rightarrow> element \<Rightarrow> error + fl" where
  "Huber_call PW f x =
     (case hub_domain f of
        ProductSpace ts \<Rightarrow>
          (case PW (ProductSpace ts) (Some (Fin 2)) of
             Inl e \<Rightarrow> Inl e
           | Inr pn \<Rightarrow>
               (let tmp = Huber_smooth (hub_gamma f) (pn x)
                in Inr (inner tmp (one_like tmp))))
      | TensorSpace t \<Rightarrow>
          (case x of
             Tensor xs \<Rightarrow>
               (let tmp = Huber_smooth (hub_gamma f) (map fl_abs xs)
                in Inr (inner tmp (one_like tmp)))
           | Product xss \<Rightarrow> Inl OpDomainError))"

text \<open>
  Modelled from the spec: an instance of the parameter \<open>PW\<close>, at which the properties
  below are evaluated. For the exponent \<open>2\<close> (the default) vector-valued points get the
  Euclidean norm of the vector at each point; the vector field has to live on a power
  space.
\<close>

definition PointwiseNorm_l2 :: pointwise_norm where
  "PointwiseNorm_l2 vfspace exponent =
     (case vfspace of
        TensorSpace t \<Rightarrow> Inl TypeError
      | ProductSpace ts \<Rightarrow>
          if \<not> is_power_space ts then Inl TypeError
          else if exponent = None \<or> exponent = Some (Fin 2) then
            Inr (\<lambda>x. case x of
                        Product xss \<Rightarrow> map norm_el (transpose xss)
                      | Tensor xs \<Rightarrow> [])
          else Inl NotImplementedError)"

section \<open>Properties\<close>

subsection \<open>Linearity of a quadratic form\<close>



subsection \<open>Zero proximal of the indicator of the origin\<close>

text \<open>
  Claim C9. For every step size \<open>sigma\<close> and every input \<open>x\<close>, the proximal operator that
  the proximal factory of \<^verbatim>\<open>IndicatorZero\<close> produces maps \<open>x\<close> to the zero element of
  the domain, whatever \<open>sigma\<close> and the constant of the functional are.
\<close>

theorem IndicatorZero_proximal_is_zero:
  "IndicatorZero_proximal (IndicatorZero sp c) sigma x = zero sp"
  by (simp add: IndicatorZero_proximal_def IndicatorZero_def ZeroOperator_def)

subsection \<open>Evaluation of the simplex indicator\<close>

text \<open>
  Claim C7. \<^verbatim>\<open>IndicatorSimplex(space, diameter, sum_rtol)\<close> evaluates to \<open>0\<close> at \<open>x\<close> if and
  only if every component of \<open>x\<close> is \<open>\<ge> 0\<close> (no tolerance) and
  \<open>|\<Sum>x_i / diameter - 1| \<le> sum_rtol\<close>; otherwise it evaluates to \<open>+\<infinity>\<close>. The tolerance
  defaults to \<open>1e-10 * size\<close> on a \<^verbatim>\<open>float64\<close> domain and to \<open>1e-6 * size\<close> on any other.
\<close>

theorem IndicatorSimplex_call_iff:
  "(IndicatorSimplex_call f x = Fin 0 \<longleftrightarrow>
      (\<forall>v \<in> set x. fl_ge v (Fin 0))
      \<and> fl_le (fl_abs (fl_sub (fl_div (fl_sum x) (is_diameter f)) (Fin 1))) (is_sum_rtol f))
   \<and> (IndicatorSimplex_call f x \<noteq> Fin 0 \<longrightarrow> IndicatorSimplex_call f x = PInf)
   \<and> is_sum_rtol (IndicatorSimplex_init sp d None)
        = (if space_dtype sp = ''float64'' then Fin (1 / 10 ^ 10 * real (space_size sp))
           else Fin (1 / 10 ^ 6 * real (space_size sp)))
   \<and> is_sum_rtol (IndicatorSimplex_init sp d (Some r)) = r
   \<and> is_diameter (IndicatorSimplex_init sp d rt) = d"
  by (auto simp: IndicatorSimplex_call_def IndicatorSimplex_init_def Let_def list_all_iff)

theorem IndicatorSimplex_call_iff_witness:
  "IndicatorSimplex_call (IndicatorSimplex_init (rn 2) (Fin 1) None) [Fin (1/2), Fin (1/2)] = Fin 0
   \<and> IndicatorSimplex_call (IndicatorSimplex_init (rn 2) (Fin 1) None) [Fin 1, Fin 1] = PInf
   \<and> IndicatorSimplex_call (IndicatorSimplex_init (rn 2) (Fin 1) None) [Fin 2, Fin (- 1)] = PInf"
  using IndicatorSimplex_call_iff [of "IndicatorSimplex_init (rn 2) (Fin 1) None" "[Fin (1/2), Fin (1/2)]"]
    IndicatorSimplex_call_iff [of "IndicatorSimplex_init (rn 2) (Fin 1) None" "[Fin 1, Fin 1]"]
    IndicatorSimplex_call_iff [of "IndicatorSimplex_init (rn 2) (Fin 1) None" "[Fin 2, Fin (- 1)]"]
  by (simp add: IndicatorSimplex_init_def rn_def fl_ge_def fl_sub_def)

subsection \<open>Non-finite values in the Kullback-Leibler family\<close>

text \<open>
  Claim C3, as the code has it. For every input \<open>x\<close>, the evaluations of
  \<^verbatim>\<open>KullbackLeibler\<close>, \<^verbatim>\<open>KullbackLeiblerConvexConj\<close> and \<^verbatim>\<open>KullbackLeiblerCrossEntropy\<close>
  return a finite value or \<open>+\<infinity>\<close>, never \<open>nan\<close>: a sum that is not finite is mapped to
  \<open>+\<infinity>\<close>.
\<close>

theorem KullbackLeibler_guarded:
  "(isfinite (KullbackLeibler_call f x) \<or> KullbackLeibler_call f x = PInf)
   \<and> (isfinite (KullbackLeiblerConvexConj_call f x) \<or> KullbackLeiblerConvexConj_call f x = PInf)
   \<and> (isfinite (KullbackLeiblerCrossEntropy_call f x)
        \<or> KullbackLeiblerCrossEntropy_call f x = PInf)"
  by (simp add: KullbackLeibler_call_def KullbackLeiblerConvexConj_call_def
        KullbackLeiblerCrossEntropy_call_def Let_def)

text \<open>
  The fourth functional, \<^verbatim>\<open>KullbackLeiblerCrossEntropyConvexConj\<close>, has no guard: with the
  prior \<open>[0]\<close> and \<open>x = [inf]\<close> the product \<open>0 * (exp(inf) - 1)\<close> is \<open>nan\<close>, and \<open>nan\<close> is
  what the evaluation returns.
\<close>

theorem KullbackLeiblerCrossEntropyConvexConj_nan:
  "KullbackLeiblerCrossEntropyConvexConj_call
     \<lparr>kl_domain = rn 1, kl_prior = Some [Fin 0]\<rparr> [PInf] = NaN"
  by (simp add: KullbackLeiblerCrossEntropyConvexConj_call_def inner_def one_def rn_def
        fl_sub_def)

subsection \<open>The conjugate Kullback-Leibler functional at a zero of the prior\<close>

text \<open>
  Claim C4 says that \<^verbatim>\<open>KullbackLeiblerConvexConj(g)\<close> is \<open>+\<infinity>\<close> as soon as one component
  of \<open>x\<close> is \<open>\<ge> 1\<close>, as the docstring of its \<^verbatim>\<open>_call\<close> does. With the prior \<open>g = [0]\<close> and
  \<open>x = [2]\<close> the evaluation returns \<open>0\<close>: \<^verbatim>\<open>xlogy(0, 1 - 2)\<close> is \<open>0\<close>, so the logarithm of the
  negative number never reaches the sum.
\<close>

theorem KullbackLeiblerConvexConj_zero_prior:
  "KullbackLeiblerConvexConj_call \<lparr>kl_domain = rn 1, kl_prior = Some [Fin 0]\<rparr> [Fin 2] = Fin 0"
  by (simp add: KullbackLeiblerConvexConj_call_def inner_def one_def rn_def fl_sub_def
        xlogy_def fl_eq_def)

subsection \<open>The biconjugate of a quadratic form\<close>

text \<open>
  Claim C1 says that \<^verbatim>\<open>convex_conj.convex_conj\<close> of a \<^verbatim>\<open>QuadraticForm\<close> with a
  self-adjoint invertible operator evaluates as the form itself. With the identity of
  \<^verbatim>\<open>rn(1)\<close>, the vector \<open>b = [1]\<close> and the constant \<open>0\<close>, the form is \<open>x\<^sup>2 + x\<close> and is \<open>0\<close>
  at \<open>x = 0\<close>; its conjugate as computed is \<open>x\<^sup>2 - 2x + 1\<close>, and the conjugate of that is
  \<open>x\<^sup>2 + 4x + 3\<close>, which is \<open>3\<close> at \<open>x = 0\<close>.
\<close>

theorem QuadraticForm_biconjugate_differs:
  "QuadraticForm_init (Some (IdentityOperator (rn 1))) (Some [Fin 1]) (Fin 0)
     = Inr \<lparr>qf_domain = rn 1, qf_is_linear = False,
            qf_operator = Some (IdentityOperator (rn 1)), qf_vector = Some [Fin 1],
            qf_constant = Fin 0\<rparr>
   \<and> QuadraticForm_call \<lparr>qf_domain = rn 1, qf_is_linear = False,
            qf_operator = Some (IdentityOperator (rn 1)), qf_vector = Some [Fin 1],
            qf_constant = Fin 0\<rparr> [Fin 0] = Inr (Fin 0)
   \<and> biconjugate_call \<lparr>qf_domain = rn 1, qf_is_linear = False,
            qf_operator = Some (IdentityOperator (rn 1)), qf_vector = Some [Fin 1],
            qf_constant = Fin 0\<rparr> [Fin 0] = Inr (Fin 3)"
  by (simp add: QuadraticForm_init_def QuadraticForm_call_def biconjugate_call_def
        QuadraticForm_convex_conj_def IdentityOperator_def rn_def in_range_def inner_def
        op_inverse_def op_adjoint_def vadd_def vsub_def vneg_def fl_sub_def fl_eq_def)

subsection \<open>The gradients of the two divergences at non-positive points\<close>

lemma fl_log_nonpos: "fl_le v (Fin 0) \<Longrightarrow> \<not> isfinite (fl_log v)"
  by (cases v) auto

lemma fl_log_div_nonpos:
  "fl_le v (Fin 0) \<Longrightarrow> fl_ge g (Fin 0) \<Longrightarrow> \<not> isfinite (fl_log (fl_div v g))"
  by (cases v; cases g) (auto simp: fl_ge_def signed_inf_def zero_less_divide_iff)

lemma fl_div_neg_left: "fl_div (fl_neg a) b = fl_neg (fl_div a b)"
  by (cases a; cases b) (auto simp: signed_inf_def)

lemma fl_add_commute: "fl_add a b = fl_add b a"
  by (cases a; cases b) auto

lemma KLGradient_scalar: "fl_add (fl_div (fl_neg g) v) (Fin 1) = fl_sub (Fin 1) (fl_div g v)"
  by (simp add: fl_div_neg_left fl_sub_def fl_add_commute)

lemma KLGradient_scalar_one: "fl_add (fl_div (Fin (- 1)) v) (Fin 1) = fl_sub (Fin 1) (fl_div (Fin 1) v)"
  using KLGradient_scalar [of "Fin 1" v] by simp

text \<open>
  Claim C5. At a point \<open>x\<close> with a component \<open>\<le> 0\<close> the gradient operator of
  \<^verbatim>\<open>KullbackLeiblerCrossEntropy\<close> raises an error (the prior being absent or, as the data
  model has it, componentwise non-negative and in the domain), and whenever it returns,
  every component of the result is finite. The gradient operator of \<^verbatim>\<open>KullbackLeibler\<close>
  returns \<open>1 - g/x\<close> at every point and never raises.
\<close>

theorem KLCrossEntropyGradient_raises:
  "((kl_prior f = None
       \<or> (\<exists>g. kl_prior f = Some g \<and> length g = length x \<and> (\<forall>v \<in> set g. fl_ge v (Fin 0))))
      \<and> (\<exists>v \<in> set x. fl_le v (Fin 0))
     \<longrightarrow> KLCrossEntropyGradient_call f x = Inl ValueError)
   \<and> (\<forall>y. KLCrossEntropyGradient_call f x = Inr y \<longrightarrow> list_all isfinite y)
   \<and> KLGradient_call f x =
       Inr (case kl_prior f of
              None \<Rightarrow> map (\<lambda>v. fl_sub (Fin 1) (fl_div (Fin 1) v)) x
            | Some g \<Rightarrow> map2 (\<lambda>gi v. fl_sub (Fin 1) (fl_div gi v)) g x)"
proof (intro conjI impI allI)
  assume h: "(kl_prior f = None
       \<or> (\<exists>g. kl_prior f = Some g \<and> length g = length x \<and> (\<forall>v \<in> set g. fl_ge v (Fin 0))))
      \<and> (\<exists>v \<in> set x. fl_le v (Fin 0))"
  then obtain v where v: "v \<in> set x" "fl_le v (Fin 0)" by blast
  from h consider (none) "kl_prior f = None"
    | (some) g where "kl_prior f = Some g" "length g = length x" "\<forall>v \<in> set g. fl_ge v (Fin 0)"
    by auto
  then show "KLCrossEntropyGradient_call f x = Inl ValueError"
  proof cases
    case none
    from v have "\<not> list_all isfinite (map fl_log x)"
      by (auto simp: list_all_iff dest: fl_log_nonpos)
    with none show ?thesis by (simp add: KLCrossEntropyGradient_call_def)
  next
    case some
    from some(2) v(1) obtain gi where gi: "(v, gi) \<in> set (zip x g)"
      using in_set_impl_in_set_zip1 [of x g v] by auto
    then have "gi \<in> set g" by (rule set_zip_rightD)
    with some(3) have "fl_ge gi (Fin 0)" by blast
    with v(2) have "\<not> isfinite (fl_log (fl_div v gi))" by (rule fl_log_div_nonpos)
    with gi have "\<not> list_all isfinite (map fl_log (map2 fl_div x g))"
      by (force simp: list_all_iff)
    with some(1) show ?thesis by (simp add: KLCrossEntropyGradient_call_def)
  qed
next
  fix y assume "KLCrossEntropyGradient_call f x = Inr y"
  then show "list_all isfinite y"
    by (auto simp: KLCrossEntropyGradient_call_def Let_def split: if_splits)
next
  show "KLGradient_call f x =
       Inr (case kl_prior f of
              None \<Rightarrow> map (\<lambda>v. fl_sub (Fin 1) (fl_div (Fin 1) v)) x
            | Some g \<Rightarrow> map2 (\<lambda>gi v. fl_sub (Fin 1) (fl_div gi v)) g x)"
    by (auto simp: KLGradient_call_def KLGradient_scalar KLGradient_scalar_one zip_map1
             split: option.splits)
qed

theorem KLCrossEntropyGradient_raises_witness:
  "KLCrossEntropyGradient_call \<lparr>kl_domain = rn 2, kl_prior = Some [Fin 1, Fin 2]\<rparr> [Fin 1, Fin 0]
     = Inl ValueError
   \<and> KLGradient_call \<lparr>kl_domain = rn 2, kl_prior = Some [Fin 1, Fin 2]\<rparr> [Fin 1, Fin 0]
     = Inr [Fin 0, NInf]
   \<and> KLCrossEntropyGradient_call \<lparr>kl_domain = rn 2, kl_prior = Some [Fin 1, Fin 2]\<rparr> [Fin 1, Fin 2]
     = Inr [Fin 0, Fin 0]"
  using KLCrossEntropyGradient_raises
          [of "\<lparr>kl_domain = rn 2, kl_prior = Some [Fin 1, Fin 2]\<rparr>" "[Fin 1, Fin 0]"]
        KLCrossEntropyGradient_raises
          [of "\<lparr>kl_domain = rn 2, kl_prior = Some [Fin 1, Fin 2]\<rparr>" "[Fin 1, Fin 2]"]
  by (simp add: fl_ge_def fl_sub_def signed_inf_def KLCrossEntropyGradient_call_def)

subsection \<open>The gradient of the L2 norm\<close>

lemma fl_add_eq_Fin: "fl_add a b = Fin s \<longleftrightarrow> (\<exists>p q. a = Fin p \<and> b = Fin q \<and> s = p + q)"
  by (cases a; cases b) auto

lemma fl_square_eq_Fin: "fl_mul v v = Fin a \<longleftrightarrow> (\<exists>r. v = Fin r \<and> a = r * r)"
  by (cases v) auto

lemma inner_self: "inner x x = fl_sum (map (\<lambda>v. fl_mul v v) x)"
  by (simp add: inner_def zip_same_conv_map comp_def)

lemma sum_squares_Fin:
  "fl_sum (map (\<lambda>v. fl_mul v v) x) = Fin s \<Longrightarrow> 0 \<le> s \<and> (s = 0 \<longrightarrow> (\<forall>v \<in> set x. v = Fin 0))"
proof (induction x arbitrary: s)
  case Nil
  then show ?case by simp
next
  case (Cons v x)
  from Cons.prems obtain a b where ab: "fl_mul v v = Fin a" "fl_sum (map (\<lambda>v. fl_mul v v) x) = Fin b" "s = a + b"
    by (auto simp: fl_add_eq_Fin)
  from ab(1) obtain r where r: "v = Fin r" "a = r * r" by (auto simp: fl_square_eq_Fin)
  from Cons.IH [OF ab(2)] have b: "0 \<le> b" "b = 0 \<longrightarrow> (\<forall>v \<in> set x. v = Fin 0)" by auto
  have a: "0 \<le> a" using r(2) by simp
  show ?case
  proof (intro conjI impI)
    show "0 \<le> s" using a b(1) ab(3) by simp
  next
    assume "s = 0"
    with a b(1) ab(3) have "a = 0" "b = 0" by auto
    with r b(2) show "\<forall>v \<in> set (v # x). v = Fin 0" by auto
  qed
qed

lemma sum_squares_zero:
  "\<forall>v \<in> set x. v = Fin 0 \<Longrightarrow> fl_sum (map (\<lambda>v. fl_mul v v) x) = Fin 0"
  by (induction x) auto

lemma norm_el_zero_iff: "norm_el x = Fin 0 \<longleftrightarrow> (\<forall>v \<in> set x. v = Fin 0)"
proof
  assume h: "norm_el x = Fin 0"
  then obtain s where s: "inner x x = Fin s" "0 \<le> s" "sqrt s = 0"
    by (cases "inner x x") (auto simp: norm_el_def split: if_splits)
  from s(3) have "s = 0" by simp
  moreover from s(1) have "fl_sum (map (\<lambda>v. fl_mul v v) x) = Fin s"
    by (simp only: inner_self)
  ultimately show "\<forall>v \<in> set x. v = Fin 0"
    using sum_squares_Fin [of x s] by blast
next
  assume "\<forall>v \<in> set x. v = Fin 0"
  then have "inner x x = Fin 0"
    by (simp only: inner_self sum_squares_zero)
  then show "norm_el x = Fin 0"
    by (simp add: norm_el_def)
qed

lemma eq_replicate_iff: "length x = n \<Longrightarrow> x = replicate n c \<longleftrightarrow> (\<forall>v \<in> set x. v = c)"
  by (induction x arbitrary: n) auto

text \<open>
  Claim C8. The gradient operator of \<^verbatim>\<open>LpNorm\<close> with exponent \<open>2\<close> returns the zero
  element of the domain at \<open>x = 0\<close>, which is the one point where the norm of \<open>x\<close> is \<open>0\<close>,
  and \<open>x / \<parallel>x\<parallel>\<close> at every other \<open>x\<close>, where the divisor is not \<open>0\<close>.
\<close>

theorem L2Gradient_call_cases:
  assumes "length x = space_size sp"
  shows "LpNorm_gradient sp (Fin 2) = Inr (L2Gradient_call sp)
    \<and> (norm_el x = Fin 0 \<longleftrightarrow> x = zero sp)
    \<and> (x = zero sp \<longrightarrow> L2Gradient_call sp x = zero sp)
    \<and> (x \<noteq> zero sp \<longrightarrow>
         norm_el x \<noteq> Fin 0 \<and> L2Gradient_call sp x = map (\<lambda>v. fl_div v (norm_el x)) x)"
proof -
  have iff: "norm_el x = Fin 0 \<longleftrightarrow> x = zero sp"
    unfolding zero_def norm_el_zero_iff eq_replicate_iff [OF assms] ..
  have grad: "LpNorm_gradient sp (Fin 2) = Inr (L2Gradient_call sp)"
    by (simp add: LpNorm_gradient_def fl_eq_def)
  have at_zero: "x = zero sp \<longrightarrow> L2Gradient_call sp x = zero sp"
  proof
    assume "x = zero sp"
    with iff have "norm_el x = Fin 0" by blast
    then show "L2Gradient_call sp x = zero sp"
      by (simp only: L2Gradient_call_def Let_def fl_eq_def isnan.simps) simp
  qed
  have away: "x \<noteq> zero sp \<longrightarrow>
         norm_el x \<noteq> Fin 0 \<and> L2Gradient_call sp x = map (\<lambda>v. fl_div v (norm_el x)) x"
  proof
    assume "x \<noteq> zero sp"
    with iff have n: "norm_el x \<noteq> Fin 0" by blast
    then have "L2Gradient_call sp x = map (\<lambda>v. fl_div v (norm_el x)) x"
      by (simp only: L2Gradient_call_def Let_def fl_eq_def) simp
    with n show "norm_el x \<noteq> Fin 0 \<and> L2Gradient_call sp x = map (\<lambda>v. fl_div v (norm_el x)) x"
      by blast
  qed
  from grad iff at_zero away show ?thesis by blast
qed

theorem L2Gradient_call_cases_witness:
  "L2Gradient_call (rn 2) [Fin 0, Fin 0] = [Fin 0, Fin 0]
   \<and> L2Gradient_call (rn 2) [Fin 3, Fin 4] = [Fin (3/5), Fin (4/5)]"
proof -
  have n: "norm_el [Fin 3, Fin 4] = Fin 5"
  proof -
    have "sqrt 25 = 5" by (rule real_sqrt_unique) auto
    then show ?thesis by (simp add: norm_el_def inner_def)
  qed
  have z: "zero (rn 2) = [Fin 0, Fin 0]" by (simp add: zero_def rn_def numeral_2_eq_2)
  have a: "length [Fin 0, Fin 0] = space_size (rn 2)" by (simp add: rn_def)
  have b: "length [Fin 3, Fin 4] = space_size (rn 2)" by (simp add: rn_def)
  from L2Gradient_call_cases [OF a]
  have "[Fin 0, Fin 0] = zero (rn 2) \<longrightarrow> L2Gradient_call (rn 2) [Fin 0, Fin 0] = zero (rn 2)"
    by blast
  then have 1: "L2Gradient_call (rn 2) [Fin 0, Fin 0] = [Fin 0, Fin 0]"
    unfolding z by simp
  from L2Gradient_call_cases [OF b]
  have "[Fin 3, Fin 4] \<noteq> zero (rn 2) \<longrightarrow>
          L2Gradient_call (rn 2) [Fin 3, Fin 4]
            = map (\<lambda>v. fl_div v (norm_el [Fin 3, Fin 4])) [Fin 3, Fin 4]"
    by blast
  then have 2: "L2Gradient_call (rn 2) [Fin 3, Fin 4] = [Fin (3/5), Fin (4/5)]"
    unfolding z n by simp
  from 1 2 show ?thesis by (rule conjI)
qed

subsection \<open>The Huber functional without smoothing\<close>

lemma sqrt_25: "sqrt 25 = 5"
  by (rule real_sqrt_unique) auto

text \<open>
  Claim C6. For every input \<open>x\<close>, \<^verbatim>\<open>Huber(space, gamma=0)\<close> evaluates to exactly the value
  of \<^verbatim>\<open>L1Norm(space)\<close> when the domain is a tensor space, and to the value of
  \<^verbatim>\<open>GroupL1Norm(space, 2)\<close> when the domain is a product space (on which that functional
  can be constructed), whatever \<^verbatim>\<open>PointwiseNorm\<close> computes.
\<close>

theorem Huber_gamma_zero:
  "(length xs = space_size t \<longrightarrow>
      Huber_call PW (Huber_init (TensorSpace t) (Fin 0)) (Tensor xs)
        = functional_call (L1Norm t) xs)
   \<and> (GroupL1Norm_init PW (ProductSpace ts) (Some (Fin 2)) = Inr g \<longrightarrow>
      Huber_call PW (Huber_init (ProductSpace ts) (Fin 0)) x = Inr (GroupL1Norm_call g x))"
proof (intro conjI impI)
  assume "length xs = space_size t"
  then show "Huber_call PW (Huber_init (TensorSpace t) (Fin 0)) (Tensor xs)
        = functional_call (L1Norm t) xs"
    by (simp add: Huber_call_def Huber_init_def Huber_smooth_def L1Norm_def LpNorm_call_def
          fl_gt_def fl_lt_def fl_eq_def one_like_def one_def)
next
  assume "GroupL1Norm_init PW (ProductSpace ts) (Some (Fin 2)) = Inr g"
  then obtain pn where "PW (ProductSpace ts) (Some (Fin 2)) = Inr pn" "gl1_pointwise_norm g = pn"
    by (auto simp: GroupL1Norm_init_def split: if_splits sum.splits)
  then show "Huber_call PW (Huber_init (ProductSpace ts) (Fin 0)) x = Inr (GroupL1Norm_call g x)"
    by (simp add: Huber_call_def Huber_init_def Huber_smooth_def GroupL1Norm_call_def
          fl_gt_def fl_lt_def fl_eq_def Let_def)
qed

theorem Huber_gamma_zero_witness:
  "Huber_call PointwiseNorm_l2 (Huber_init (TensorSpace (rn 2)) (Fin 0)) (Tensor [Fin 3, Fin (- 4)])
     = Inr (Fin 7)
   \<and> functional_call (L1Norm (rn 2)) [Fin 3, Fin (- 4)] = Inr (Fin 7)
   \<and> Huber_call PointwiseNorm_l2 (Huber_init (ProductSpace [rn 2, rn 2]) (Fin 0))
        (Product [[Fin 3, Fin 3], [Fin 4, Fin 4]]) = Inr (Fin 10)"
proof -
  let ?pn = "\<lambda>x. case x of Product xss \<Rightarrow> map norm_el (transpose xss) | Tensor xs \<Rightarrow> []"
  let ?g = "\<lparr>gl1_domain = ProductSpace [rn 2, rn 2], gl1_pointwise_norm = ?pn\<rparr>"
  have l1: "functional_call (L1Norm (rn 2)) [Fin 3, Fin (- 4)] = Inr (Fin 7)"
    by (simp add: L1Norm_def LpNorm_call_def fl_eq_def inner_def one_def rn_def numeral_2_eq_2)
  have init: "GroupL1Norm_init PointwiseNorm_l2 (ProductSpace [rn 2, rn 2]) (Some (Fin 2)) = Inr ?g"
    by (simp add: GroupL1Norm_init_def PointwiseNorm_l2_def)
  have n: "norm_el [Fin 3, Fin 4] = Fin 5"
    by (simp add: norm_el_def inner_def sqrt_25)
  have tr: "transpose [[Fin 3, Fin 3], [Fin 4, Fin 4]] = [[Fin 3, Fin 4], [Fin 3, Fin 4]]"
    by (simp add: transpose.simps)
  have gl: "GroupL1Norm_call ?g (Product [[Fin 3, Fin 3], [Fin 4, Fin 4]]) = Fin 10"
    by (simp add: GroupL1Norm_call_def tr n inner_def one_like_def)
  have len: "length [Fin 3, Fin (- 4)] = space_size (rn 2)" by (simp add: rn_def)
  from Huber_gamma_zero [of "[Fin 3, Fin (- 4)]" "rn 2" PointwiseNorm_l2 "[rn 2, rn 2]" ?g
         "Product [[Fin 3, Fin 3], [Fin 4, Fin 4]]"] len init
  have "Huber_call PointwiseNorm_l2 (Huber_init (TensorSpace (rn 2)) (Fin 0)) (Tensor [Fin 3, Fin (- 4)])
          = functional_call (L1Norm (rn 2)) [Fin 3, Fin (- 4)]"
    and "Huber_call PointwiseNorm_l2 (Huber_init (ProductSpace [rn 2, rn 2]) (Fin 0))
          (Product [[Fin 3, Fin 3], [Fin 4, Fin 4]])
          = Inr (GroupL1Norm_call ?g (Product [[Fin 3, Fin 3], [Fin 4, Fin 4]]))"
    by blast+
  with l1 gl show ?thesis by (simp only:) 
qed

subsection \<open>The Lp norm and its conjugates\<close>

lemma convex_conj_twice:
  "convex_conj ce (convex_conj ce (LpNorm sp p)) =
     (if fl_eq (ce p) PInf then L1Norm sp
      else if fl_eq (ce p) (Fin 2) then L2Norm sp
      else LpNorm sp (ce (ce p)))"
  by simp

lemma convex_conj_round_trip:
  assumes inf: "ce PInf = Fin 1" and two: "ce (Fin 2) = Fin 2"
    and again: "fl_eq (ce (ce p)) p"
  shows "convex_conj ce (convex_conj ce (LpNorm sp p)) = LpNorm sp p"
proof -
  from again have eq: "ce (ce p) = p" by (simp add: fl_eq_def)
  show ?thesis
  proof (cases "ce p = PInf")
    case True
    with eq inf have "p = Fin 1" by simp
    with True show ?thesis by (simp add: fl_eq_def L1Norm_def)
  next
    case False
    show ?thesis
    proof (cases "ce p = Fin 2")
      case True
      with eq two have "p = Fin 2" by simp
      with True show ?thesis by (simp add: fl_eq_def L2Norm_def)
    next
      case two': False
      with False eq show ?thesis by (simp add: fl_eq_def)
    qed
  qed
qed

lemma conj_exponent_special:
  "conj_exponent (Fin 1) = PInf" "conj_exponent (Fin 2) = Fin 2" "conj_exponent PInf = Fin 1"
  by (simp_all add: conj_exponent_def fl_eq_def fl_sub_def)

text \<open>
  Claim C2, as the code has it. For every exponent \<open>p\<close>, \<^verbatim>\<open>LpNorm(space, p).convex_conj\<close>
  is the indicator of the unit ball of the norm with the exponent \<open>q = conj_exponent(p)\<close>;
  \<open>q = \<infinity>\<close> when \<open>p = 1\<close>, \<open>q = 2\<close> when \<open>p = 2\<close> and \<open>q = 1\<close> when \<open>p = \<infinity>\<close>, each with
  \<open>1/p + 1/q = 1\<close>. Taking \<^verbatim>\<open>convex_conj\<close> twice gives a functional that evaluates as the
  original \<^verbatim>\<open>LpNorm\<close> at every point whenever \<open>conj_exponent(q)\<close> is \<open>p\<close> again, as it is for
  \<open>p = 1\<close>, \<open>p = 2\<close> and \<open>p = \<infinity>\<close>. The first two parts and the round trip hold for whatever
  function computes the conjugate exponent, given its values at \<open>2\<close> and \<open>\<infinity>\<close>.
\<close>

theorem LpNorm_biconjugate:
  "convex_conj ce (LpNorm sp p) = IndicatorLpUnitBall sp (ce p)
   \<and> functional_call (convex_conj ce (LpNorm sp p)) x =
       (case functional_call (LpNorm sp (ce p)) x of
          Inl e \<Rightarrow> Inl e
        | Inr n \<Rightarrow> Inr (if fl_gt n (Fin 1) then PInf else Fin 0))
   \<and> (ce PInf = Fin 1 \<and> ce (Fin 2) = Fin 2 \<and> fl_eq (ce (ce p)) p \<longrightarrow>
        functional_call (convex_conj ce (convex_conj ce (LpNorm sp p))) x
          = functional_call (LpNorm sp p) x)
   \<and> conj_exponent (Fin 1) = PInf \<and> conj_exponent (Fin 2) = Fin 2
   \<and> conj_exponent PInf = Fin 1
   \<and> (p = Fin 1 \<or> p = Fin 2 \<or> p = PInf \<longrightarrow>
        fl_add (fl_div (Fin 1) p) (fl_div (Fin 1) (conj_exponent p)) = Fin 1
        \<and> functional_call
            (convex_conj conj_exponent (convex_conj conj_exponent (LpNorm sp p))) x
          = functional_call (LpNorm sp p) x)"
proof -
  have ball: "functional_call (convex_conj ce (LpNorm sp p)) x =
       (case functional_call (LpNorm sp (ce p)) x of
          Inl e \<Rightarrow> Inl e
        | Inr n \<Rightarrow> Inr (if fl_gt n (Fin 1) then PInf else Fin 0))"
    by (simp add: IndicatorLpUnitBall_call_def split: sum.splits)
  have trip: "ce PInf = Fin 1 \<and> ce (Fin 2) = Fin 2 \<and> fl_eq (ce (ce p)) p \<longrightarrow>
        functional_call (convex_conj ce (convex_conj ce (LpNorm sp p))) x
          = functional_call (LpNorm sp p) x"
  proof
    assume h: "ce PInf = Fin 1 \<and> ce (Fin 2) = Fin 2 \<and> fl_eq (ce (ce p)) p"
    then have "convex_conj ce (convex_conj ce (LpNorm sp p)) = LpNorm sp p"
      by (intro convex_conj_round_trip) simp_all
    then show "functional_call (convex_conj ce (convex_conj ce (LpNorm sp p))) x
          = functional_call (LpNorm sp p) x"
      by (simp only:)
  qed
  have special: "p = Fin 1 \<or> p = Fin 2 \<or> p = PInf \<longrightarrow>
        fl_add (fl_div (Fin 1) p) (fl_div (Fin 1) (conj_exponent p)) = Fin 1
        \<and> functional_call
            (convex_conj conj_exponent (convex_conj conj_exponent (LpNorm sp p))) x
          = functional_call (LpNorm sp p) x"
  proof
    assume p: "p = Fin 1 \<or> p = Fin 2 \<or> p = PInf"
    then have again: "fl_eq (conj_exponent (conj_exponent p)) p"
      by (auto simp: conj_exponent_special fl_eq_def)
    have "convex_conj conj_exponent (convex_conj conj_exponent (LpNorm sp p)) = LpNorm sp p"
      using conj_exponent_special(3) conj_exponent_special(2) again
      by (rule convex_conj_round_trip)
    then have rt: "functional_call
            (convex_conj conj_exponent (convex_conj conj_exponent (LpNorm sp p))) x
          = functional_call (LpNorm sp p) x"
      by (simp only:)
    from p have "fl_add (fl_div (Fin 1) p) (fl_div (Fin 1) (conj_exponent p)) = Fin 1"
      by (auto simp: conj_exponent_special)
    with rt show "fl_add (fl_div (Fin 1) p) (fl_div (Fin 1) (conj_exponent p)) = Fin 1
        \<and> functional_call
            (convex_conj conj_exponent (convex_conj conj_exponent (LpNorm sp p))) x
          = functional_call (LpNorm sp p) x"
      by (rule conjI [rotated])
  qed
  have first: "convex_conj ce (LpNorm sp p) = IndicatorLpUnitBall sp (ce p)" by simp
  from first ball trip special conj_exponent_special show ?thesis by blast
qed

theorem LpNorm_biconjugate_witness:
  "convex_conj conj_exponent (LpNorm (rn 2) (Fin 3)) = IndicatorLpUnitBall (rn 2) (Fin (3/2))
   \<and> functional_call
        (convex_conj conj_exponent (convex_conj conj_exponent (LpNorm (rn 2) (Fin 3))))
        [Fin 3, Fin (- 4)]
       = functional_call (LpNorm (rn 2) (Fin 3)) [Fin 3, Fin (- 4)]
   \<and> functional_call
        (convex_conj conj_exponent (convex_conj conj_exponent (LpNorm (rn 2) (Fin 1))))
        [Fin 3, Fin (- 4)]
       = Inr (Fin 7)"
proof -
  have q: "conj_exponent (Fin 3) = Fin (3/2)"
    by (simp add: conj_exponent_def fl_eq_def fl_sub_def)
  have q': "conj_exponent (Fin (3/2)) = Fin 3"
    by (simp add: conj_exponent_def fl_eq_def fl_sub_def)
  have hyp: "conj_exponent PInf = Fin 1 \<and> conj_exponent (Fin 2) = Fin 2
      \<and> fl_eq (conj_exponent (conj_exponent (Fin 3))) (Fin 3)"
    by (simp add: q q' fl_eq_def conj_exponent_special)
  have l1: "functional_call (LpNorm (rn 2) (Fin 1)) [Fin 3, Fin (- 4)] = Inr (Fin 7)"
    by (simp add: LpNorm_call_def fl_eq_def inner_def one_def rn_def numeral_2_eq_2)
  note three = LpNorm_biconjugate [of conj_exponent "rn 2" "Fin 3" "[Fin 3, Fin (- 4)]"]
  note one = LpNorm_biconjugate [of conj_exponent "rn 2" "Fin 1" "[Fin 3, Fin (- 4)]"]
  from three have a: "convex_conj conj_exponent (LpNorm (rn 2) (Fin 3))
      = IndicatorLpUnitBall (rn 2) (conj_exponent (Fin 3))"
    by blast
  from three hyp have b: "functional_call
        (convex_conj conj_exponent (convex_conj conj_exponent (LpNorm (rn 2) (Fin 3))))
        [Fin 3, Fin (- 4)]
       = functional_call (LpNorm (rn 2) (Fin 3)) [Fin 3, Fin (- 4)]"
    by blast
  from one have c: "functional_call
        (convex_conj conj_exponent (convex_conj conj_exponent (LpNorm (rn 2) (Fin 1))))
        [Fin 3, Fin (- 4)]
       = functional_call (LpNorm (rn 2) (Fin 1)) [Fin 3, Fin (- 4)]"
    by blast
  from a b c show ?thesis unfolding q l1 by blast
qed

text \<open>
  The claim as stated fails at the exponents \<open>-\<infinity>\<close> and \<open>0\<close>, which \<^verbatim>\<open>LpNorm\<close> accepts. From
  \<open>p = -\<infinity>\<close>, where the functional is the minimum of the absolute values, the conjugate
  exponents are \<open>nan\<close>, and the functional at the end of the round trip raises
  \<^verbatim>\<open>RuntimeError\<close> when called. For \<open>p = 0\<close> the sum \<open>1/p + 1/q\<close> is not \<open>1\<close>.
\<close>

theorem LpNorm_biconjugate_fails:
  "functional_call
     (convex_conj conj_exponent (convex_conj conj_exponent (LpNorm (rn 2) NInf)))
     [Fin 1, Fin 2] = Inl RuntimeError
   \<and> functional_call (LpNorm (rn 2) NInf) [Fin 1, Fin 2] = Inr (Fin 1)
   \<and> fl_add (fl_div (Fin 1) (Fin 0)) (fl_div (Fin 1) (conj_exponent (Fin 0))) \<noteq> Fin 1"
  by (simp add: LpNorm_call_def conj_exponent_def fl_eq_def fl_sub_def fl_min_def
        signed_inf_def)

text \<open>
  Neither failure depends on the values chosen for \<open>conj_exponent\<close>: no \<open>q\<close> at all
  completes \<open>1/0\<close> to \<open>1\<close>, and the round trip comes back to the exponent \<open>-\<infinity>\<close> only if
  the function that computes conjugate exponents returns \<open>-\<infinity>\<close> somewhere.
\<close>

lemma no_conjugate_of_zero: "fl_add (fl_div (Fin 1) (Fin 0)) (fl_div (Fin 1) q) \<noteq> Fin 1"
  by (cases q) (auto simp: signed_inf_def)

lemma round_trip_to_neg_inf:
  "convex_conj ce (convex_conj ce (LpNorm sp NInf)) = LpNorm sp NInf \<Longrightarrow> ce (ce NInf) = NInf"
  by (auto simp: L1Norm_def L2Norm_def split: if_splits)

text \<open>
  In the exact arithmetic of the model, \<open>conj_exponent\<close> is an involution on the exponents
  that are \<open>+\<infinity>\<close> or finite and not \<open>0\<close>, and \<open>1/p + 1/q = 1\<close> holds there; in the program
  both hold up to the rounding of \<open>p / (p - 1)\<close>.
\<close>

lemma conj_exponent_involutive_exact:
  assumes "p = PInf \<or> (\<exists>r. p = Fin r \<and> r \<noteq> 0)"
  shows "conj_exponent (conj_exponent p) = p"
proof (cases p)
  case (Fin r)
  with assms have r0: "r \<noteq> 0" by simp
  show ?thesis
  proof (cases "r = 1")
    case True
    with Fin show ?thesis by (simp add: conj_exponent_special)
  next
    case False
    with r0 have ne1: "r / (r - 1) \<noteq> 1" by (simp add: field_simps)
    from False r0 have rt: "r / (r - 1) / (r / (r - 1) - 1) = r" by (simp add: field_simps)
    from Fin False ne1 rt show ?thesis
      by (simp add: conj_exponent_def fl_eq_def fl_sub_def)
  qed
qed (use assms in \<open>auto simp: conj_exponent_special\<close>)

lemma conj_exponent_reciprocals_exact:
  assumes "p = PInf \<or> (\<exists>r. p = Fin r \<and> r \<noteq> 0)"
  shows "fl_add (fl_div (Fin 1) p) (fl_div (Fin 1) (conj_exponent p)) = Fin 1"
proof (cases p)
  case (Fin r)
  with assms have r0: "r \<noteq> 0" by simp
  show ?thesis
  proof (cases "r = 1")
    case True
    with Fin show ?thesis by (simp add: conj_exponent_special)
  next
    case False
    with r0 have "1 / r + (r - 1) / r = 1" by (simp add: field_simps)
    with Fin False r0 show ?thesis
      by (simp add: conj_exponent_def fl_eq_def fl_sub_def)
  qed
qed (use assms in \<open>auto simp: conj_exponent_special\<close>)

subsection \<open>Where the two defects stop\<close>

text \<open>
  With a prior whose components are all positive, \<^verbatim>\<open>KullbackLeiblerConvexConj\<close> is \<open>+\<infinity>\<close>
  as soon as a component of \<open>x\<close> is \<open>\<ge> 1\<close>, and it is \<open>\<Sum> -g_i log(1 - x_i)\<close> when every
  component of \<open>x\<close> is below \<open>1\<close>: the evaluation leaves its documentation only at the
  zeros of the prior.
\<close>

lemma fl_mul_one: "fl_mul t (Fin 1) = t"
  by (cases t) (auto simp: signed_inf_def)

lemma inner_one: "length v = space_size sp \<Longrightarrow> inner v (one sp) = fl_sum v"
  by (simp add: inner_def one_def zip_replicate2 fl_mul_one comp_def)

lemma fl_sum_finite: "fl_sum v = Fin s \<Longrightarrow> list_all isfinite v"
proof (induction v arbitrary: s)
  case Nil
  then show ?case by simp
next
  case (Cons t v)
  then obtain a b where "t = Fin a" "fl_sum v = Fin b" by (auto simp: fl_add_eq_Fin)
  with Cons.IH show ?case by simp
qed

lemma fl_neg_finite: "isfinite (fl_neg t) = isfinite t"
  by (cases t) auto

lemma xlogy_positive_prior:
  "0 < a \<Longrightarrow> fl_ge v (Fin 1) \<Longrightarrow> \<not> isfinite (xlogy (Fin a) (fl_sub (Fin 1) v))"
  by (cases v) (auto simp: xlogy_def fl_eq_def fl_sub_def fl_ge_def signed_inf_def)

lemma KullbackLeiblerConvexConj_positive_prior_inf:
  assumes dom: "length x = space_size (kl_domain f)"
    and prior: "kl_prior f = Some g" "length g = length x"
    and pos: "\<forall>gi \<in> set g. \<exists>a. gi = Fin a \<and> 0 < a"
    and ge1: "\<exists>v \<in> set x. fl_ge v (Fin 1)"
  shows "KullbackLeiblerConvexConj_call f x = PInf"
proof -
  let ?xl = "map2 xlogy g (map (\<lambda>v. fl_sub (Fin 1) v) x)"
  from ge1 obtain v where v: "v \<in> set x" "fl_ge v (Fin 1)" by blast
  from prior(2) v(1) obtain gi where gi: "(gi, v) \<in> set (zip g x)"
    using in_set_impl_in_set_zip2 [of g x v] by auto
  then have "gi \<in> set g" by (rule set_zip_leftD)
  with pos obtain a where a: "gi = Fin a" "0 < a" by blast
  with v(2) have "\<not> isfinite (xlogy gi (fl_sub (Fin 1) v))" by (simp add: xlogy_positive_prior)
  with gi have nf: "\<not> list_all isfinite ?xl"
    by (force simp: list_all_iff zip_map2)
  have len: "length ?xl = space_size (kl_domain f)" using dom prior(2) by simp
  have "\<not> isfinite (fl_sum ?xl)"
  proof
    assume "isfinite (fl_sum ?xl)"
    then obtain s where "fl_sum ?xl = Fin s" by (cases "fl_sum ?xl") auto
    then have "list_all isfinite ?xl" by (rule fl_sum_finite)
    with nf show False by blast
  qed
  then have "\<not> isfinite (fl_neg (inner ?xl (one (kl_domain f))))"
    by (simp add: inner_one [OF len] fl_neg_finite)
  with prior(1) show ?thesis
    by (simp add: KullbackLeiblerConvexConj_call_def Let_def)
qed

lemma fl_sum_Fin: "fl_sum (map Fin rs) = Fin (sum_list rs)"
  by (induction rs) auto

lemma KullbackLeiblerConvexConj_positive_prior_value:
  assumes dom: "length rs = space_size (kl_domain f)"
    and prior: "kl_prior f = Some (map Fin gs)" "length gs = length rs"
    and pos: "\<forall>a \<in> set gs. 0 < a"
    and lt1: "\<forall>r \<in> set rs. r < 1"
  shows "KullbackLeiblerConvexConj_call f (map Fin rs)
           = Fin (\<Sum>(a, r) \<leftarrow> zip gs rs. - (a * ln (1 - r)))"
proof -
  let ?xl = "map2 xlogy (map Fin gs) (map (\<lambda>v. fl_sub (Fin 1) v) (map Fin rs))"
  have "?xl = map Fin (map (\<lambda>(a, r). a * ln (1 - r)) (zip gs rs))"
    using pos lt1
    by (auto simp: zip_map_map xlogy_def fl_eq_def fl_sub_def dest: set_zip_leftD set_zip_rightD)
  then have sum: "fl_sum ?xl = Fin (\<Sum>(a, r) \<leftarrow> zip gs rs. a * ln (1 - r))"
    by (simp only: fl_sum_Fin)
  have len: "length ?xl = space_size (kl_domain f)" using dom prior(2) by simp
  have "(\<Sum>(a, r) \<leftarrow> zip gs rs. - (a * ln (1 - r))) = - (\<Sum>(a, r) \<leftarrow> zip gs rs. a * ln (1 - r))"
    by (induction gs rs rule: list_induct2') auto
  then have neg: "fl_neg (fl_sum ?xl) = Fin (\<Sum>(a, r) \<leftarrow> zip gs rs. - (a * ln (1 - r)))"
    by (simp only: sum fl_neg.simps)
  have "KullbackLeiblerConvexConj_call f (map Fin rs) =
          (let res = fl_neg (inner ?xl (one (kl_domain f)))
           in if \<not> isfinite res then PInf else res)"
    using prior(1) by (simp add: KullbackLeiblerConvexConj_call_def Let_def)
  also have "\<dots> = Fin (\<Sum>(a, r) \<leftarrow> zip gs rs. - (a * ln (1 - r)))"
    by (simp only: inner_one [OF len] neg Let_def isfinite.simps) simp
  finally show ?thesis .
qed

text \<open>
  Without a vector, the conjugate of the conjugate of a quadratic form evaluates as the
  form: the round trip fails only through the vector and constant of the other branch.
\<close>

lemma QuadraticForm_biconjugate_no_vector:
  assumes "qf_operator f = Some A" "qf_vector f = None" "op_has_inverse A"
  shows "biconjugate_call f x = QuadraticForm_call f x"
proof -
  have neg: "fl_neg (fl_neg (qf_constant f)) = qf_constant f"
    by (cases "qf_constant f") auto
  from assms neg show ?thesis
    by (simp add: biconjugate_call_def QuadraticForm_convex_conj_def QuadraticForm_init_def
          QuadraticForm_call_def op_inverse_def in_range_def)
qed

subsection \<open>The examples of the docstrings and of the spec\<close>

text \<open>
  The model reproduces the values that the docstrings of \<^verbatim>\<open>KullbackLeibler\<close>,
  \<^verbatim>\<open>IndicatorZero\<close> and \<^verbatim>\<open>IndicatorSimplex\<close> print, and the two values of \<^verbatim>\<open>LpNorm\<close>
  that the spec lists.
\<close>

lemma KullbackLeibler_doctest_prior:
  "KullbackLeibler_call \<lparr>kl_domain = rn 3, kl_prior = Some [Fin 3, Fin 3, Fin 3]\<rparr>
     [Fin 3, Fin 3, Fin 3] = Fin 0"
  by (simp add: KullbackLeibler_call_def inner_def one_def rn_def fl_sub_def xlogy_def
        fl_eq_def numeral_3_eq_3)

lemma KullbackLeibler_doctest_zero_prior:
  "KullbackLeibler_call \<lparr>kl_domain = rn 3, kl_prior = Some [Fin 0, Fin 0, Fin 0]\<rparr>
     [Fin 1, Fin 1, Fin 1] = Fin 3"
  by (simp add: KullbackLeibler_call_def inner_def one_def rn_def fl_sub_def xlogy_def
        fl_eq_def numeral_3_eq_3)

lemma IndicatorZero_doctest:
  "IndicatorZero_call (IndicatorZero (rn 3) (Fin 0)) [Fin 0, Fin 0, Fin 0] = Fin 0"
  "IndicatorZero_call (IndicatorZero (rn 3) (Fin 0)) [Fin 0, Fin 0, Fin 1] = PInf"
  "IndicatorZero_call (IndicatorZero (rn 3) (Fin 2)) [Fin 0, Fin 0, Fin 0] = Fin 2"
  by (simp_all add: IndicatorZero_call_def IndicatorZero_def norm_el_def inner_def fl_eq_def)

lemma IndicatorSimplex_doctest:
  "IndicatorSimplex_call (IndicatorSimplex_init (rn 3) (Fin 1) None) [Fin 1, Fin 1, Fin 1] = PInf"
  "IndicatorSimplex_call (IndicatorSimplex_init (rn 3) (Fin 1) None)
     [Fin (1/3), Fin (1/3), Fin (1/3)] = Fin 0"
  by (simp_all add: IndicatorSimplex_call_def IndicatorSimplex_init_def rn_def fl_sub_def
        fl_ge_def)

lemma LpNorm_examples:
  "functional_call (LpNorm (rn 2) (Fin 1)) [Fin 3, Fin 4] = Inr (Fin 7)"
  "functional_call (LpNorm (rn 2) (Fin 2)) [Fin 3, Fin 4] = Inr (Fin 5)"
  by (simp_all add: LpNorm_call_def fl_eq_def inner_def one_def rn_def numeral_2_eq_2 sqrt_25)

end
